theory Spec2Isabelle
  imports Complex_Main "HOL-Library.Sublist" "HOL-Library.Multiset"
begin

section \<open>The query engine of the spreadsheet assistant\<close>

text \<open>
  This theory embeds \<^verbatim>\<open>processExcelQuery\<close> and \<^verbatim>\<open>generateSummary\<close> of the React
  component \<^verbatim>\<open>App\<close> (the variant of the component that answers queries locally).  The
  component state \<^verbatim>\<open>excelData\<close>, which the closures read, is an explicit argument.

  Conventions of the embedding.
  \<^item> Strings are \<^typ>\<open>string\<close>, i.e. lists of 8-bit characters; the model covers ASCII
    text, on which \<^verbatim>\<open>toLowerCase\<close> changes exactly the letters A to Z.
  \<^item> A JavaScript number is \<^verbatim>\<open>NaN\<close>, an infinity, or the rational value of an IEEE
    double.  Parsing, addition, multiplication and division round to the nearest double,
    ties to even, and overflow to an infinity.  A number cell of the table holds a double.
    Negative zero is identified with zero (the code cannot tell them apart).
  \<^item> Two library functions are fixed only by the host, not by the source:
    \<^verbatim>\<open>String.prototype.localeCompare\<close> (locale-dependent collation) and the printing of
    numbers that are not small integers.  They are parameters of the model, collected in
    the record \<open>host\<close>.
  \<^item> A row object is an association list in the enumeration order of its own keys; a
    missing key reads as \<^verbatim>\<open>undefined\<close>.  Property names that collide with members of
    \<^verbatim>\<open>Object.prototype\<close> are outside the model.
\<close>

subsection \<open>Strings\<close>

text \<open>
  The letters A to Z are the codes 65 to 90; the lower-case letter is 32 higher, which for
  these codes is the same as setting bit 5.
\<close>

definition lowerChar :: "char \<Rightarrow> char" where
  "lowerChar c =
     (let n = (of_char c :: nat)
      in if 65 \<le> n \<and> n \<le> 90
         then (case c of Char b0 b1 b2 b3 b4 b5 b6 b7 \<Rightarrow> Char b0 b1 b2 b3 b4 True b6 b7)
         else c)"

definition toLowerCase :: "string \<Rightarrow> string" where
  "toLowerCase s = map lowerChar s"

text \<open>\<^verbatim>\<open>s.includes(sub)\<close>: \<open>sub\<close> occurs in \<open>s\<close> as a contiguous substring.\<close>

fun str_includes :: "string \<Rightarrow> string \<Rightarrow> bool" where
  "str_includes [] sub = (sub = [])"
| "str_includes (c # cs) sub = (prefix sub (c # cs) \<or> str_includes cs sub)"

text \<open>\<^verbatim>\<open>parts.join(sep)\<close>\<close>

fun join :: "string \<Rightarrow> string list \<Rightarrow> string" where
  "join sep [] = []"
| "join sep [x] = x"
| "join sep (x # y # ys) = x @ sep @ join sep (y # ys)"

definition isDigit :: "char \<Rightarrow> bool" where
  "isDigit c = (let n = (of_char c :: nat) in 48 \<le> n \<and> n \<le> 57)"

definition digitVal :: "char \<Rightarrow> nat" where
  "digitVal c = of_char c - 48"

definition digitChar :: "nat \<Rightarrow> char" where
  "digitChar d = ''0123456789'' ! d"

text \<open>Decimal value of a digit string, most significant digit first.\<close>

definition digitsVal :: "string \<Rightarrow> nat" where
  "digitsVal s = foldl (\<lambda>acc c. 10 * acc + digitVal c) 0 s"

text \<open>Decimal digits of a natural number, as a template literal prints a length or a count.\<close>

fun natToString :: "nat \<Rightarrow> string" where
  "natToString n = (if n < 10 then [digitChar n] else natToString (n div 10) @ [digitChar (n mod 10)])"

declare natToString.simps [simp del]

subsection \<open>Numbers\<close>

datatype jsnum = NaN | Fin rat | PosInf | NegInf

fun isNaN :: "jsnum \<Rightarrow> bool" where
  "isNaN NaN = True"
| "isNaN _ = False"

text \<open>
  Rounding a rational to the nearest IEEE double (binary64), ties to even.  The position of
  the leading bit gives the exponent, not below that of the subnormal numbers; the value
  is rounded to a multiple of the unit in the last place, \<open>2\<close> to the exponent minus 52; a
  result of magnitude \<open>2 ^ 1024\<close> or more is an infinity.
\<close>

fun bitLength :: "nat \<Rightarrow> nat" where
  "bitLength n = (if n = 0 then 0 else Suc (bitLength (n div 2)))"

declare bitLength.simps [simp del]

definition pow2 :: "int \<Rightarrow> rat" where
  "pow2 d = (if 0 \<le> d then 2 ^ nat d else 1 / 2 ^ nat (- d))"

definition negLog2 :: "rat \<Rightarrow> int \<Rightarrow> int" where
  "negLog2 b k = (if b = pow2 k then - k else - (k + 1))"

text \<open>The integer \<open>e\<close> with \<open>2 ^ e \<le> a < 2 ^ (e + 1)\<close>, for positive \<open>a\<close>.\<close>

definition floorLog2 :: "rat \<Rightarrow> int" where
  "floorLog2 a =
     (if 1 \<le> a then int (bitLength (nat \<lfloor>a\<rfloor>)) - 1
      else negLog2 (1 / a) (int (bitLength (nat \<lfloor>1 / a\<rfloor>)) - 1))"

definition roundHalfEven :: "rat \<Rightarrow> int" where
  "roundHalfEven x =
     (let f = \<lfloor>x\<rfloor>; d = x - of_int f
      in if d < 1 / 2 then f
         else if 1 / 2 < d then f + 1
         else if even f then f else f + 1)"

definition roundAt :: "rat \<Rightarrow> int \<Rightarrow> rat" where
  "roundAt a e = of_int (roundHalfEven (a / pow2 (e - 52))) * pow2 (e - 52)"

definition packDouble :: "bool \<Rightarrow> rat \<Rightarrow> jsnum" where
  "packDouble neg y =
     (if pow2 1024 \<le> y then (if neg then NegInf else PosInf)
      else Fin (if neg then - y else y))"

definition roundDouble :: "rat \<Rightarrow> jsnum" where
  "roundDouble x =
     (if x = 0 then Fin 0
      else packDouble (x < 0) (roundAt \<bar>x\<bar> (max (floorLog2 \<bar>x\<bar>) (- 1022))))"

text \<open>
  \<^verbatim>\<open>a - b\<close> in the sort comparators.  Only the sign of the difference is used, and
  rounding does not change the sign of a difference of two doubles; the difference is left
  exact.
\<close>

fun jsSub :: "jsnum \<Rightarrow> jsnum \<Rightarrow> jsnum" where
  "jsSub NaN _ = NaN"
| "jsSub _ NaN = NaN"
| "jsSub (Fin a) (Fin b) = Fin (a - b)"
| "jsSub (Fin a) PosInf = NegInf"
| "jsSub (Fin a) NegInf = PosInf"
| "jsSub PosInf PosInf = NaN"
| "jsSub PosInf _ = PosInf"
| "jsSub NegInf NegInf = NaN"
| "jsSub NegInf _ = NegInf"

text \<open>\<^verbatim>\<open>a + b\<close>\<close>

fun jsAdd :: "jsnum \<Rightarrow> jsnum \<Rightarrow> jsnum" where
  "jsAdd NaN _ = NaN"
| "jsAdd _ NaN = NaN"
| "jsAdd (Fin a) (Fin b) = roundDouble (a + b)"
| "jsAdd (Fin a) PosInf = PosInf"
| "jsAdd (Fin a) NegInf = NegInf"
| "jsAdd PosInf NegInf = NaN"
| "jsAdd PosInf _ = PosInf"
| "jsAdd NegInf PosInf = NaN"
| "jsAdd NegInf _ = NegInf"

text \<open>\<^verbatim>\<open>a / n\<close> for an array length or a count \<open>n\<close>.\<close>

fun jsDivNat :: "jsnum \<Rightarrow> nat \<Rightarrow> jsnum" where
  "jsDivNat (Fin a) n =
     (if n = 0 then (if a = 0 then NaN else if 0 < a then PosInf else NegInf)
      else roundDouble (a / of_nat n))"
| "jsDivNat v n = v"

text \<open>\<^verbatim>\<open>a * c\<close> for a positive constant \<open>c\<close>.\<close>

fun jsTimes :: "jsnum \<Rightarrow> rat \<Rightarrow> jsnum" where
  "jsTimes (Fin a) c = roundDouble (a * c)"
| "jsTimes v c = v"

text \<open>\<open>a < b\<close> on numbers; false as soon as one side is \<^verbatim>\<open>NaN\<close>.\<close>

fun jsLess :: "jsnum \<Rightarrow> jsnum \<Rightarrow> bool" where
  "jsLess NaN _ = False"
| "jsLess _ NaN = False"
| "jsLess (Fin a) (Fin b) = (a < b)"
| "jsLess (Fin a) PosInf = True"
| "jsLess (Fin a) NegInf = False"
| "jsLess PosInf _ = False"
| "jsLess NegInf NegInf = False"
| "jsLess NegInf _ = True"

text \<open>
  \<^verbatim>\<open>Math.min(...values)\<close> and \<^verbatim>\<open>Math.max(...values)\<close>; a \<^verbatim>\<open>NaN\<close> argument gives \<^verbatim>\<open>NaN\<close>.  (An
  array too long for the engine's argument list is outside the model.)
\<close>

definition jsMin :: "jsnum \<Rightarrow> jsnum \<Rightarrow> jsnum" where
  "jsMin a b = (if isNaN a \<or> isNaN b then NaN else if jsLess b a then b else a)"

definition jsMax :: "jsnum \<Rightarrow> jsnum \<Rightarrow> jsnum" where
  "jsMax a b = (if isNaN a \<or> isNaN b then NaN else if jsLess a b then b else a)"

definition mathMin :: "jsnum list \<Rightarrow> jsnum" where
  "mathMin vs = foldl jsMin PosInf vs"

definition mathMax :: "jsnum list \<Rightarrow> jsnum" where
  "mathMax vs = foldl jsMax NegInf vs"

subsection \<open>Parsing a string as a number\<close>

text \<open>
  \<^verbatim>\<open>Number(s)\<close> for a string: white space is trimmed at both ends; the empty string is
  0; then either \<^verbatim>\<open>Infinity\<close> with an optional sign, or a hexadecimal, octal or binary
  integer with its prefix and no sign, or a decimal literal with an optional sign, an
  optional fraction and an optional exponent.  Everything else is \<^verbatim>\<open>NaN\<close>.  The value of
  a literal is rounded to the nearest double.
\<close>

definition isWhiteSpace :: "char \<Rightarrow> bool" where
  "isWhiteSpace c = (let n = (of_char c :: nat) in n = 32 \<or> (9 \<le> n \<and> n \<le> 13))"

definition trim :: "string \<Rightarrow> string" where
  "trim s = rev (dropWhile isWhiteSpace (rev (dropWhile isWhiteSpace s)))"

text \<open>Value of a digit in a radix up to 16, or \<open>None\<close>.\<close>

definition radixDigit :: "nat \<Rightarrow> char \<Rightarrow> nat option" where
  "radixDigit radix c =
     (let n = (of_char c :: nat);
          v = (if 48 \<le> n \<and> n \<le> 57 then n - 48
               else if 97 \<le> n \<and> n \<le> 102 then n - 87
               else if 65 \<le> n \<and> n \<le> 70 then n - 55
               else 16)
      in if v < radix then Some v else None)"

fun radixVal :: "nat \<Rightarrow> nat \<Rightarrow> string \<Rightarrow> nat option" where
  "radixVal radix acc [] = Some acc"
| "radixVal radix acc (c # cs) =
     (case radixDigit radix c of
        None \<Rightarrow> None
      | Some v \<Rightarrow> radixVal radix (radix * acc + v) cs)"

text \<open>A non-decimal integer literal: \<^verbatim>\<open>0x\<close>, \<^verbatim>\<open>0o\<close> or \<^verbatim>\<open>0b\<close> and at least one digit.\<close>

definition parseRadixLiteral :: "string \<Rightarrow> rat option" where
  "parseRadixLiteral s =
     (case s of
        z # p # d # ds \<Rightarrow>
          (if z \<noteq> CHR ''0'' then None
           else let radix = (if p = CHR ''x'' \<or> p = CHR ''X'' then 16
                             else if p = CHR ''o'' \<or> p = CHR ''O'' then 8
                             else if p = CHR ''b'' \<or> p = CHR ''B'' then 2
                             else (0::nat))
                in if radix = 0 then None
                   else map_option of_nat (radixVal radix 0 (d # ds)))
      | _ \<Rightarrow> None)"

text \<open>The exponent part after the letter e: an optional sign and at least one digit.\<close>

definition parseExponent :: "string \<Rightarrow> int option" where
  "parseExponent s =
     (let (neg, ds) = (case s of
                         c # cs \<Rightarrow> (if c = CHR ''-'' then (True, cs)
                                    else if c = CHR ''+'' then (False, cs)
                                    else (False, s))
                       | [] \<Rightarrow> (False, s))
      in if ds = [] \<or> \<not> list_all isDigit ds then None
         else Some (if neg then - int (digitsVal ds) else int (digitsVal ds)))"

text \<open>An unsigned decimal literal: \<^verbatim>\<open>12\<close>, \<^verbatim>\<open>12.\<close>, \<^verbatim>\<open>12.5\<close>, \<^verbatim>\<open>.5\<close>, each with an optional exponent.\<close>

definition parseUnsignedDecimal :: "string \<Rightarrow> rat option" where
  "parseUnsignedDecimal s =
     (let ip = takeWhile isDigit s;
          r1 = dropWhile isDigit s;
          (fp, r2) = (case r1 of
                        c # cs \<Rightarrow> (if c = CHR ''.'' then (takeWhile isDigit cs, dropWhile isDigit cs)
                                   else ([], r1))
                      | [] \<Rightarrow> ([], r1));
          mant = (of_nat (digitsVal (ip @ fp)) :: rat) / 10 ^ length fp
      in if ip = [] \<and> fp = [] then None
         else (case r2 of
                 [] \<Rightarrow> Some mant
               | c # cs \<Rightarrow>
                   (if c = CHR ''e'' \<or> c = CHR ''E'' then
                      (case parseExponent cs of
                         None \<Rightarrow> None
                       | Some e \<Rightarrow> Some (if e < 0 then mant / 10 ^ nat (- e) else mant * 10 ^ nat e))
                    else None)))"

definition parseSignedDecimal :: "string \<Rightarrow> jsnum" where
  "parseSignedDecimal s =
     (let (neg, body) = (case s of
                           c # cs \<Rightarrow> (if c = CHR ''-'' then (True, cs)
                                      else if c = CHR ''+'' then (False, cs)
                                      else (False, s))
                         | [] \<Rightarrow> (False, s))
      in if body = ''Infinity'' then (if neg then NegInf else PosInf)
         else (case parseUnsignedDecimal body of
                 None \<Rightarrow> NaN
               | Some x \<Rightarrow> roundDouble (if neg then - x else x)))"

definition stringToNumber :: "string \<Rightarrow> jsnum" where
  "stringToNumber s =
     (let t = trim s
      in if t = [] then Fin 0
         else (case parseRadixLiteral t of
                 Some x \<Rightarrow> roundDouble x
               | None \<Rightarrow> parseSignedDecimal t))"

subsection \<open>Cell values, rows and the table\<close>

text \<open>A cell is any value the sheet decoder can put into a row object.\<close>

datatype jsval = Undefined | Null | Bool bool | Num jsnum | Text string

type_synonym row = "(string \<times> jsval) list"

text \<open>\<^verbatim>\<open>interface ExcelData { sheets: string[]; data: any[]; fileName: string }\<close>\<close>

record ExcelData =
  sheets :: "string list"
  data :: "row list"
  fileName :: string

text \<open>\<^verbatim>\<open>{ rows, summary }\<close>, the value \<^verbatim>\<open>processExcelQuery\<close> returns.\<close>

record QueryResult =
  rows :: "row list"
  summary :: string

text \<open>The functions of the host that the source does not determine.\<close>

record host =
  localeCompare :: "string \<Rightarrow> string \<Rightarrow> int"
  numberToString :: "rat \<Rightarrow> string"

text \<open>\<^verbatim>\<open>row[col]\<close>\<close>

definition getProp :: "row \<Rightarrow> string \<Rightarrow> jsval" where
  "getProp r col = (case map_of r col of None \<Rightarrow> Undefined | Some v \<Rightarrow> v)"

text \<open>
  Printing a number: an integer of magnitude at most \<open>2 ^ 53\<close> prints as its decimal
  digits; every other finite number prints as the host prints it.
\<close>

definition numToStr :: "host \<Rightarrow> jsnum \<Rightarrow> string" where
  "numToStr h v =
     (case v of
        NaN \<Rightarrow> ''NaN''
      | PosInf \<Rightarrow> ''Infinity''
      | NegInf \<Rightarrow> ''-Infinity''
      | Fin x \<Rightarrow>
          (if of_int \<lfloor>x\<rfloor> = x \<and> \<bar>x\<bar> \<le> 2 ^ 53
           then (if x < 0 then ''-'' @ natToString (nat \<lfloor>- x\<rfloor>) else natToString (nat \<lfloor>x\<rfloor>))
           else numberToString h x))"

text \<open>\<^verbatim>\<open>String(value)\<close>\<close>

definition toStr :: "host \<Rightarrow> jsval \<Rightarrow> string" where
  "toStr h v =
     (case v of
        Undefined \<Rightarrow> ''undefined''
      | Null \<Rightarrow> ''null''
      | Bool b \<Rightarrow> (if b then ''true'' else ''false'')
      | Num n \<Rightarrow> numToStr h n
      | Text s \<Rightarrow> s)"

text \<open>\<^verbatim>\<open>Number(value)\<close>\<close>

definition toNumber :: "jsval \<Rightarrow> jsnum" where
  "toNumber v =
     (case v of
        Undefined \<Rightarrow> NaN
      | Null \<Rightarrow> Fin 0
      | Bool b \<Rightarrow> (if b then Fin 1 else Fin 0)
      | Num n \<Rightarrow> n
      | Text s \<Rightarrow> stringToNumber s)"

text \<open>
  \<^verbatim>\<open>x.toFixed(d)\<close>.  For a magnitude below \<open>10 ^ 21\<close> the digits are those of the integer
  \<open>n\<close> nearest to \<open>x * 10 ^ d\<close>, the larger one at a tie, padded with zeros to at least
  \<open>d + 1\<close> digits, with the point before the last \<open>d\<close> digits.
\<close>

definition toFixedDigits :: "nat \<Rightarrow> rat \<Rightarrow> string" where
  "toFixedDigits d x =
     (let n = nat \<lfloor>x * 10 ^ d + 1 / 2\<rfloor>;
          m = natToString n;
          m' = (if d \<noteq> 0 \<and> length m \<le> d then replicate (d + 1 - length m) CHR ''0'' @ m else m)
      in if d = 0 then m'
         else take (length m' - d) m' @ ''.'' @ drop (length m' - d) m')"

definition toFixed :: "host \<Rightarrow> nat \<Rightarrow> jsnum \<Rightarrow> string" where
  "toFixed h d v =
     (case v of
        NaN \<Rightarrow> ''NaN''
      | PosInf \<Rightarrow> ''Infinity''
      | NegInf \<Rightarrow> ''-Infinity''
      | Fin x \<Rightarrow>
          (let s = (if x < 0 then ''-'' else []);
               y = (if x < 0 then - x else x)
           in if 10 ^ 21 \<le> y then s @ numberToString h y else s @ toFixedDigits d y))"

subsection \<open>Objects used as dictionaries, and sorting\<close>

text \<open>
  \<^verbatim>\<open>numericStats\<close> and \<^verbatim>\<open>categoricalStats\<close> are plain objects.  Writing a new key appends
  it, writing an old key keeps its place.  Enumeration (\<^verbatim>\<open>Object.entries\<close>) lists the keys
  that are array indices first, in ascending numeric order, then the other keys in the
  order they were created.
\<close>

definition objSet :: "(string \<times> 'a) list \<Rightarrow> string \<Rightarrow> 'a \<Rightarrow> (string \<times> 'a) list" where
  "objSet obj k v =
     (if k \<in> fst ` set obj then map (\<lambda>(k', v'). if k' = k then (k', v) else (k', v')) obj
      else obj @ [(k, v)])"

definition isArrayIndex :: "string \<Rightarrow> bool" where
  "isArrayIndex k =
     (k \<noteq> [] \<and> list_all isDigit k \<and> (k = ''0'' \<or> hd k \<noteq> CHR ''0'') \<and> digitsVal k \<le> 4294967294)"

definition objEntries :: "(string \<times> 'a) list \<Rightarrow> (string \<times> 'a) list" where
  "objEntries obj =
     sort_key (\<lambda>e. digitsVal (fst e)) (filter (\<lambda>e. isArrayIndex (fst e)) obj)
       @ filter (\<lambda>e. \<not> isArrayIndex (fst e)) obj"

text \<open>
  \<^verbatim>\<open>array.sort(compare)\<close>.  The standard fixes the result only for a consistent comparator,
  and requires the sort to be stable; the model is the stable insertion sort, which is
  that result.  An element moves behind another one only if the comparator is positive;
  \<^verbatim>\<open>NaN\<close> counts as zero.
\<close>

fun jsPositive :: "jsnum \<Rightarrow> bool" where
  "jsPositive (Fin x) = (0 < x)"
| "jsPositive PosInf = True"
| "jsPositive _ = False"

fun insertSorted :: "('a \<Rightarrow> 'a \<Rightarrow> jsnum) \<Rightarrow> 'a \<Rightarrow> 'a list \<Rightarrow> 'a list" where
  "insertSorted cmp x [] = [x]"
| "insertSorted cmp x (y # ys) =
     (if jsPositive (cmp x y) then y # insertSorted cmp x ys else x # y # ys)"

definition arraySort :: "('a \<Rightarrow> 'a \<Rightarrow> jsnum) \<Rightarrow> 'a list \<Rightarrow> 'a list" where
  "arraySort cmp xs = foldr (insertSorted cmp) xs []"

subsection \<open>Intent keywords\<close>

definition isFilterQuery :: "string \<Rightarrow> bool" where
  "isFilterQuery queryLower =
     (str_includes queryLower ''filter'' \<or> str_includes queryLower ''show'' \<or>
      str_includes queryLower ''only'' \<or> str_includes queryLower ''which'' \<or>
      str_includes queryLower ''where'')"

definition isSortQuery :: "string \<Rightarrow> bool" where
  "isSortQuery queryLower =
     (str_includes queryLower ''sort'' \<or> str_includes queryLower ''order by'' \<or>
      str_includes queryLower ''arrange'')"

definition isSummarizeQuery :: "string \<Rightarrow> bool" where
  "isSummarizeQuery queryLower =
     (str_includes queryLower ''summarize'' \<or> str_includes queryLower ''summary'' \<or>
      str_includes queryLower ''stats'' \<or> str_includes queryLower ''statistics'' \<or>
      str_includes queryLower ''count'')"

definition isDescending :: "string \<Rightarrow> bool" where
  "isDescending queryLower =
     (str_includes queryLower ''descending'' \<or> str_includes queryLower ''desc'' \<or>
      str_includes queryLower ''high to low'' \<or> str_includes queryLower ''largest'' \<or>
      str_includes queryLower ''highest'')"

subsection \<open>Resolving columns and vocabulary values\<close>

text \<open>
  \<^verbatim>\<open>excelData.data.length > 0 ? Object.keys(excelData.data[0]) : []\<close>
\<close>

definition tableColumns :: "row list \<Rightarrow> string list" where
  "tableColumns d = (case d of [] \<Rightarrow> [] | firstRow # _ \<Rightarrow> map fst firstRow)"

text \<open>
  The loop over the columns that stops at the first one whose lower-cased name occurs in
  the query.  The empty string is the initial value, and means that no column was found.
\<close>

fun findColumn :: "string \<Rightarrow> string list \<Rightarrow> string" where
  "findColumn queryLower [] = []"
| "findColumn queryLower (col # cols) =
     (if str_includes queryLower (toLowerCase col) then col else findColumn queryLower cols)"

definition commonValues :: "string list" where
  "commonValues = [''ok'', ''not ok'', ''yes'', ''no'', ''true'', ''false'', ''pass'', ''fail'']"

definition valueMatches :: "string \<Rightarrow> string list" where
  "valueMatches queryLower = filter (\<lambda>val. str_includes queryLower val) commonValues"

subsection \<open>The stages of \<^verbatim>\<open>processExcelQuery\<close>\<close>

text \<open>The default search: rows with some value whose lower-cased text contains the query.\<close>

definition plainSearch :: "host \<Rightarrow> string \<Rightarrow> row list \<Rightarrow> row list" where
  "plainSearch h queryLower d =
     filter (\<lambda>r. list_ex (\<lambda>value. str_includes (toLowerCase (toStr h value)) queryLower) (map snd r)) d"

text \<open>The three tests the filter branch applies to a row.\<close>

definition anyColumnEquals :: "host \<Rightarrow> string \<Rightarrow> row \<Rightarrow> bool" where
  "anyColumnEquals h targetValue r =
     list_ex (\<lambda>(col, val). toLowerCase (toStr h val) = targetValue) r"

definition columnEquals :: "host \<Rightarrow> string \<Rightarrow> string \<Rightarrow> row \<Rightarrow> bool" where
  "columnEquals h targetColumn targetValue r =
     (toLowerCase (toStr h (getProp r targetColumn)) = targetValue)"

definition columnNonEmpty :: "string \<Rightarrow> row \<Rightarrow> bool" where
  "columnNonEmpty targetColumn r =
     (getProp r targetColumn \<noteq> Undefined \<and> getProp r targetColumn \<noteq> Null \<and>
      getProp r targetColumn \<noteq> Text [])"

text \<open>
  The body of \<^verbatim>\<open>if (isFilterQuery)\<close>: \<open>d\<close> is \<^verbatim>\<open>excelData.data\<close>, \<open>matchingRows\<close> the
  result of the default search, which is returned unchanged when neither a value nor a
  column is found.
\<close>

definition filterRows :: "host \<Rightarrow> string \<Rightarrow> row list \<Rightarrow> row list \<Rightarrow> row list" where
  "filterRows h queryLower d matchingRows =
     (let columns = tableColumns d;
          targetColumn = findColumn queryLower columns
      in case valueMatches queryLower of
           targetValue # _ \<Rightarrow>
             (if targetColumn = [] then filter (anyColumnEquals h targetValue) d
              else filter (columnEquals h targetColumn targetValue) d)
         | [] \<Rightarrow>
             (if targetColumn \<noteq> [] then filter (columnNonEmpty targetColumn) d
              else matchingRows))"

text \<open>The comparator handed to \<^verbatim>\<open>sort\<close>.\<close>

definition sortCompare :: "host \<Rightarrow> string \<Rightarrow> bool \<Rightarrow> row \<Rightarrow> row \<Rightarrow> jsnum" where
  "sortCompare h sortColumn desc a b =
     (let valA = getProp a sortColumn;
          valB = getProp b sortColumn
      in if \<not> isNaN (toNumber valA) \<and> \<not> isNaN (toNumber valB)
         then (if desc then jsSub (toNumber valB) (toNumber valA)
               else jsSub (toNumber valA) (toNumber valB))
         else (if desc then Fin (of_int (localeCompare h (toStr h valB) (toStr h valA)))
               else Fin (of_int (localeCompare h (toStr h valA) (toStr h valB)))))"

text \<open>The body of \<^verbatim>\<open>if (isSortQuery)\<close>.\<close>

definition sortRows :: "host \<Rightarrow> string \<Rightarrow> row list \<Rightarrow> row list \<Rightarrow> row list" where
  "sortRows h queryLower d matchingRows =
     (let columns = tableColumns d;
          sortColumn = findColumn queryLower columns
      in if sortColumn \<noteq> []
         then arraySort (sortCompare h sortColumn (isDescending queryLower)) matchingRows
         else matchingRows)"

subsection \<open>\<^verbatim>\<open>generateSummary\<close>\<close>

record numericStat =
  min_stat :: jsnum
  max_stat :: jsnum
  sum_stat :: jsnum
  avg_stat :: jsnum

text \<open>\<^verbatim>\<open>rows.map(row => Number(row[col])).filter(val => !isNaN(val))\<close>\<close>

definition columnNumbers :: "row list \<Rightarrow> string \<Rightarrow> jsnum list" where
  "columnNumbers rws col = filter (\<lambda>val. \<not> isNaN val) (map (\<lambda>r. toNumber (getProp r col)) rws)"

definition hasNumeric :: "row list \<Rightarrow> string \<Rightarrow> bool" where
  "hasNumeric rws col = list_ex (\<lambda>r. \<not> isNaN (toNumber (getProp r col))) rws"

definition statsOf :: "jsnum list \<Rightarrow> numericStat" where
  "statsOf vals =
     (let sm = foldl jsAdd (Fin 0) vals
      in \<lparr>min_stat = mathMin vals, max_stat = mathMax vals, sum_stat = sm,
          avg_stat = jsDivNat sm (length vals)\<rparr>)"

text \<open>The object \<^verbatim>\<open>numericStats\<close> after the loop over the columns.\<close>

definition numericStatsOf :: "row list \<Rightarrow> string list \<Rightarrow> (string \<times> numericStat) list" where
  "numericStatsOf rws columns =
     foldl (\<lambda>numericStats col.
              if hasNumeric rws col
              then (let vals = columnNumbers rws col
                    in if length vals > 0 then objSet numericStats col (statsOf vals)
                       else numericStats)
              else numericStats)
           [] columns"

text \<open>\<^verbatim>\<open>counts[val] = (counts[val] || 0) + 1\<close> over the rows.\<close>

definition countValues :: "string list \<Rightarrow> (string \<times> nat) list" where
  "countValues vals =
     foldl (\<lambda>counts val. objSet counts val ((case map_of counts val of None \<Rightarrow> 0 | Some c \<Rightarrow> c) + 1))
           [] vals"

text \<open>The object \<^verbatim>\<open>categoricalStats\<close> after the loop over the columns.\<close>

definition categoricalStatsOf ::
  "host \<Rightarrow> row list \<Rightarrow> string list \<Rightarrow> (string \<times> (string \<times> nat) list) list" where
  "categoricalStatsOf h rws columns =
     foldl (\<lambda>categoricalStats col.
              let vals = map (\<lambda>r. toStr h (getProp r col)) rws
              in if length (remdups vals) \<le> 10 then objSet categoricalStats col (countValues vals)
                 else categoricalStats)
           [] columns"

definition numericLine :: "host \<Rightarrow> string \<Rightarrow> numericStat \<Rightarrow> string" where
  "numericLine h col stats =
     col @ '': Min='' @ toFixed h 2 (min_stat stats) @ '', Max='' @ toFixed h 2 (max_stat stats)
       @ '', Avg='' @ toFixed h 2 (avg_stat stats)"

definition distributionEntry :: "host \<Rightarrow> nat \<Rightarrow> string \<times> nat \<Rightarrow> string" where
  "distributionEntry h n e =
     fst e @ '': '' @ natToString (snd e) @ '' (''
       @ toFixed h 1 (jsTimes (jsDivNat (Fin (of_nat (snd e))) n) 100) @ ''%)''"

definition topEntries :: "(string \<times> nat) list \<Rightarrow> (string \<times> nat) list" where
  "topEntries counts =
     take 3 (arraySort (\<lambda>a b. Fin (of_nat (snd b) - of_nat (snd a))) (objEntries counts))"

definition categoricalLine :: "host \<Rightarrow> nat \<Rightarrow> string \<times> (string \<times> nat) list \<Rightarrow> string list" where
  "categoricalLine h n e =
     (let top = topEntries (snd e)
      in if length top > 0
         then [fst e @ '' distribution: '' @ join '', '' (map (distributionEntry h n) top)]
         else [])"

text \<open>The array \<^verbatim>\<open>summary\<close> before it is joined.\<close>

definition summaryLines :: "host \<Rightarrow> row list \<Rightarrow> row \<Rightarrow> string list" where
  "summaryLines h rws firstRow =
     (let columns = map fst firstRow
      in [''Total rows: '' @ natToString (length rws)]
         @ map (\<lambda>e. numericLine h (fst e) (snd e)) (objEntries (numericStatsOf rws columns))
         @ concat (map (categoricalLine h (length rws)) (objEntries (categoricalStatsOf h rws columns))))"

definition generateSummary :: "host \<Rightarrow> row list \<Rightarrow> bool \<Rightarrow> string" where
  "generateSummary h rws forceSummarize =
     (case rws of
        [] \<Rightarrow> ''No data available for summary.''
      | firstRow # _ \<Rightarrow>
          (if forceSummarize \<or> length rws > 10 then join ''<br>'' (summaryLines h rws firstRow)
           else []))"

subsection \<open>\<^verbatim>\<open>processExcelQuery\<close>\<close>

definition processExcelQuery :: "host \<Rightarrow> string \<Rightarrow> ExcelData option \<Rightarrow> QueryResult" where
  "processExcelQuery h query excelData =
     (case excelData of
        None \<Rightarrow> \<lparr>rows = [], summary = ''No data available''\<rparr>
      | Some ed \<Rightarrow>
          (if query = [] then \<lparr>rows = [], summary = ''No data available''\<rparr>
           else
             (let queryLower = toLowerCase query;
                  matchingRows = plainSearch h queryLower (data ed);
                  matchingRows = (if isFilterQuery queryLower
                                  then filterRows h queryLower (data ed) matchingRows
                                  else matchingRows);
                  matchingRows = (if isSortQuery queryLower
                                  then sortRows h queryLower (data ed) matchingRows
                                  else matchingRows)
              in \<lparr>rows = matchingRows,
                  summary = generateSummary h matchingRows (isSummarizeQuery queryLower)\<rparr>)))"

section \<open>Notions used in the statements\<close>

text \<open>
  Text order by character code, the reading of ``case-sensitive lexicographic'' on which
  an upper-case letter precedes every lower-case one.
\<close>

fun lexLess :: "string \<Rightarrow> string \<Rightarrow> bool" where
  "lexLess [] [] = False"
| "lexLess [] (y # ys) = True"
| "lexLess (x # xs) [] = False"
| "lexLess (x # xs) (y # ys) =
     ((of_char x :: nat) < of_char y \<or> (x = y \<and> lexLess xs ys))"


text \<open>
  A host for the closed examples.  Its \<^verbatim>\<open>localeCompare\<close> is a simplified form of the
  default collation of the browsers, which it follows on texts of ASCII letters: the
  letters are compared alphabetically first, and only between texts that are equal up to
  case does the case decide, lower case first; so \<^verbatim>\<open>"a".localeCompare("B")\<close> is negative.
  Its printing of numbers that are not small integers is never consulted by the examples.
\<close>

definition collate :: "string \<Rightarrow> string \<Rightarrow> int" where
  "collate a b =
     (let la = toLowerCase a; lb = toLowerCase b
      in if lexLess la lb then - 1
         else if lexLess lb la then 1
         else if lexLess b a then - 1
         else if lexLess a b then 1
         else 0)"

definition exampleHost :: host where
  "exampleHost = \<lparr>localeCompare = collate, numberToString = (\<lambda>x. [])\<rparr>"


section \<open>Auxiliary facts\<close>

subsection \<open>Evaluation on concrete inputs\<close>

lemma floor_rat_divide_numeral: "\<lfloor>(numeral a / numeral b :: rat)\<rfloor> = numeral a div numeral b"
  by (metis floor_divide_of_int_eq of_int_numeral)

lemma natToString_small: "n < 10 \<Longrightarrow> natToString n = [digitChar n]"
  by (simp add: natToString.simps)

lemma natToString_big:
  "10 \<le> n \<Longrightarrow> natToString n = natToString (n div 10) @ [digitChar (n mod 10)]"
  by (subst natToString.simps) simp

lemma bitLength_0: "bitLength 0 = 0"
  by (simp add: bitLength.simps)

lemma bitLength_pos: "0 < n \<Longrightarrow> bitLength n = Suc (bitLength (n div 2))"
  by (subst bitLength.simps) simp

lemmas round_defs =
  roundDouble_def roundAt_def packDouble_def floorLog2_def negLog2_def roundHalfEven_def
  pow2_def bitLength_0 bitLength_pos floor_rat_divide_numeral Let_def

lemmas print_defs =
  toFixed_def toFixedDigits_def numToStr_def natToString_small natToString_big digitChar_def
  floor_rat_divide_numeral Let_def

lemmas query_defs =
  processExcelQuery_def toLowerCase_def lowerChar_def isFilterQuery_def isSortQuery_def
  isSummarizeQuery_def isDescending_def plainSearch_def filterRows_def sortRows_def
  tableColumns_def valueMatches_def commonValues_def toStr_def getProp_def generateSummary_def
  anyColumnEquals_def columnEquals_def columnNonEmpty_def arraySort_def sortCompare_def Let_def

lemmas number_defs =
  toNumber_def stringToNumber_def trim_def isWhiteSpace_def parseRadixLiteral_def
  parseSignedDecimal_def parseUnsignedDecimal_def parseExponent_def isDigit_def digitsVal_def
  digitVal_def radixDigit_def round_defs

lemmas summary_defs =
  summaryLines_def numericStatsOf_def categoricalStatsOf_def hasNumeric_def columnNumbers_def
  statsOf_def objSet_def objEntries_def isArrayIndex_def countValues_def numericLine_def
  categoricalLine_def topEntries_def distributionEntry_def mathMin_def mathMax_def jsMin_def
  jsMax_def round_defs

subsection \<open>Substrings\<close>

lemma str_includes_iff_sublist: "str_includes s sub \<longleftrightarrow> sublist sub s"
  by (induction s) (simp_all add: sublist_Cons_right)


subsection \<open>Sorting permutes\<close>

lemma mset_insertSorted: "mset (insertSorted cmp x ys) = add_mset x (mset ys)"
  by (induction ys) simp_all

lemma mset_arraySort: "mset (arraySort cmp xs) = mset xs"
  by (induction xs) (simp_all add: arraySort_def mset_insertSorted)

lemma set_arraySort: "set (arraySort cmp xs) = set xs"
  by (metis mset_arraySort set_mset_mset)

lemma arraySort_Nil: "arraySort cmp [] = []"
  by (simp add: arraySort_def)

lemma mset_sortRows: "mset (sortRows h queryLower d rs) = mset rs"
  by (simp add: sortRows_def Let_def mset_arraySort)

subsection \<open>The value filter\<close>

lemma list_ex_values: "list_ex (\<lambda>(col, val). P val) r \<longleftrightarrow> (\<exists>v \<in> snd ` set r. P v)"
  by (force simp: list_ex_iff)

lemma anyColumnEquals_eq:
  "anyColumnEquals h tv = (\<lambda>r. \<exists>v \<in> snd ` set r. toLowerCase (toStr h v) = tv)"
  by (rule ext) (simp add: anyColumnEquals_def list_ex_values)

lemma columnEquals_eq:
  "columnEquals h tc tv = (\<lambda>r. toLowerCase (toStr h (getProp r tc)) = tv)"
  by (rule ext) (simp add: columnEquals_def)

text \<open>
  With filter intent and a vocabulary value in the query, the rows handed to the sort
  stage are filtered from the whole table; the result of the default search is dropped.
\<close>

lemma rows_value_filter:
  assumes "query \<noteq> []" and "isFilterQuery (toLowerCase query)"
    and "valueMatches (toLowerCase query) = targetValue # others"
  shows "rows (processExcelQuery h query (Some ed)) =
           (let kept = filter (\<lambda>r. if findColumn (toLowerCase query) (tableColumns (data ed)) = []
                                  then \<exists>v \<in> snd ` set r. toLowerCase (toStr h v) = targetValue
                                  else toLowerCase (toStr h (getProp r (findColumn (toLowerCase query) (tableColumns (data ed))))) = targetValue)
                           (data ed)
            in if isSortQuery (toLowerCase query) then sortRows h (toLowerCase query) (data ed) kept else kept)"
proof -
  have "filterRows h (toLowerCase query) (data ed) ms =
          filter (\<lambda>r. if findColumn (toLowerCase query) (tableColumns (data ed)) = []
                       then \<exists>v \<in> snd ` set r. toLowerCase (toStr h v) = targetValue
                       else toLowerCase (toStr h (getProp r (findColumn (toLowerCase query) (tableColumns (data ed))))) = targetValue)
                 (data ed)" for ms
    using assms(3)
    by (cases "findColumn (toLowerCase query) (tableColumns (data ed)) = []")
       (simp_all add: filterRows_def Let_def anyColumnEquals_eq columnEquals_eq)
  then show ?thesis
    using assms(1,2) by (simp add: processExcelQuery_def Let_def)
qed

subsection \<open>The default search, the vocabulary scan and the sort stage\<close>

text \<open>The default search in the words of the specification.\<close>

lemma plainSearch_eq:
  "plainSearch h queryLower d =
     filter (\<lambda>r. \<exists>v \<in> snd ` set r. sublist queryLower (toLowerCase (toStr h v))) d"
  by (simp add: plainSearch_def list_ex_iff str_includes_iff_sublist)

text \<open>The scan of the columns returns the first column whose name occurs in the query.\<close>

lemma findColumn_first_match:
  assumes "\<forall>c \<in> set pre. \<not> str_includes q (toLowerCase c)"
    and "str_includes q (toLowerCase col)"
  shows "findColumn q (pre @ col # post) = col"
  using assms by (induction pre) simp_all

lemma length_filter_by_key:
  "length (filter (\<lambda>r. P (g r)) d) = size (filter_mset P (mset (map g d)))"
  by (induction d) simp_all


text \<open>
  The sort stage alone, given three rows with the dates 2023, 2021 and 2022 as strings,
  orders them 2023, 2022, 2021: the strings parse as numbers and are compared numerically,
  largest first.
\<close>

lemma sortRows_dates_descending:
  "sortRows h (toLowerCase ''Sort by date descending'')
     [[(''date'', Text ''2023'')], [(''date'', Text ''2021'')], [(''date'', Text ''2022'')]]
     [[(''date'', Text ''2023'')], [(''date'', Text ''2021'')], [(''date'', Text ''2022'')]]
   = [[(''date'', Text ''2023'')], [(''date'', Text ''2022'')], [(''date'', Text ''2021'')]]"
  by (simp add: query_defs number_defs)

subsection \<open>The numeric statistics of the summary\<close>

lemma set_objEntries: "set (objEntries obj) = set obj"
  by (auto simp: objEntries_def)

lemma set_objSet_same:
  assumes "\<forall>e \<in> set obj. snd e = f (fst e)"
  shows "set (objSet obj k (f k)) = insert (k, f k) (set obj)"
proof (cases "k \<in> fst ` set obj")
  case False
  then show ?thesis by (simp add: objSet_def)
next
  case True
  have same: "map (\<lambda>(k', v'). if k' = k then (k', f k) else (k', v')) obj = obj"
    using assms by (induction obj) auto
  from True assms have "(k, f k) \<in> set obj" by force
  with True same show ?thesis by (auto simp: objSet_def)
qed

lemma foldl_objSet_set:
  assumes "\<forall>e \<in> set obj. snd e = f (fst e)"
  shows "set (foldl (\<lambda>acc c. if P c then objSet acc c (f c) else acc) obj cols)
           = set obj \<union> {(c, f c) | c. c \<in> set cols \<and> P c}"
  using assms
proof (induction cols arbitrary: obj)
  case Nil
  then show ?case by simp
next
  case (Cons c cols)
  show ?case
  proof (cases "P c")
    case False
    with Cons show ?thesis by auto
  next
    case True
    have s: "set (objSet obj c (f c)) = insert (c, f c) (set obj)"
      using Cons.prems by (rule set_objSet_same)
    then have inv: "\<forall>e \<in> set (objSet obj c (f c)). snd e = f (fst e)"
      using Cons.prems by auto
    show ?thesis
      using True Cons.IH [OF inv] s by auto
  qed
qed

lemma hasNumeric_iff: "hasNumeric rws col \<longleftrightarrow> columnNumbers rws col \<noteq> []"
  by (auto simp: hasNumeric_def columnNumbers_def list_ex_iff filter_empty_conv)

lemma set_numericStatsOf:
  "set (numericStatsOf rws cols)
     = {(c, statsOf (columnNumbers rws c)) | c. c \<in> set cols \<and> hasNumeric rws c}"
proof -
  have "numericStatsOf rws cols =
          foldl (\<lambda>acc c. if hasNumeric rws c then objSet acc c (statsOf (columnNumbers rws c)) else acc)
                [] cols"
    unfolding numericStatsOf_def Let_def
    by (rule arg_cong [where f = "\<lambda>g. foldl g [] cols"]) (auto simp: fun_eq_iff hasNumeric_iff)
  then show ?thesis
    using foldl_objSet_set [where obj = "[]" and f = "\<lambda>c. statsOf (columnNumbers rws c)"
        and P = "hasNumeric rws" and cols = cols]
    by simp
qed

lemma columnNumbers_rows:
  "columnNumbers rws col =
     map (\<lambda>r. toNumber (getProp r col)) (filter (\<lambda>r. \<not> isNaN (toNumber (getProp r col))) rws)"
  by (simp add: columnNumbers_def filter_map comp_def)

lemma getProp_absent: "col \<notin> fst ` set r \<Longrightarrow> getProp r col = Undefined"
  using map_of_eq_None_iff [of r col] by (simp add: getProp_def)

lemma foldl_jsMin_Fin: "foldl jsMin (Fin a) (map Fin xs) = Fin (fold min xs a)"
  by (induction xs arbitrary: a) (simp_all add: jsMin_def min_def)

lemma foldl_jsMax_Fin: "foldl jsMax (Fin a) (map Fin xs) = Fin (fold max xs a)"
  by (induction xs arbitrary: a) (simp_all add: jsMax_def max_def)

lemma mathMin_Fin: "xs \<noteq> [] \<Longrightarrow> mathMin (map Fin xs) = Fin (Min (set xs))"
  using Min.set_eq_fold [of "hd xs" "tl xs"]
  by (cases xs) (simp_all add: mathMin_def jsMin_def foldl_jsMin_Fin)

lemma mathMax_Fin: "xs \<noteq> [] \<Longrightarrow> mathMax (map Fin xs) = Fin (Max (set xs))"
  using Max.set_eq_fold [of "hd xs" "tl xs"]
  by (cases xs) (simp_all add: mathMax_def jsMax_def foldl_jsMax_Fin)

lemma numericLine_in_summaryLines:
  assumes "col \<in> fst ` set firstRow" and "hasNumeric rws col"
  shows "numericLine h col (statsOf (columnNumbers rws col)) \<in> set (summaryLines h rws firstRow)"
proof -
  have "(col, statsOf (columnNumbers rws col)) \<in> set (objEntries (numericStatsOf rws (map fst firstRow)))"
    using assms by (simp add: set_objEntries set_numericStatsOf)
  then have "numericLine h (fst (col, statsOf (columnNumbers rws col))) (snd (col, statsOf (columnNumbers rws col)))
      \<in> (\<lambda>e. numericLine h (fst e) (snd e)) ` set (objEntries (numericStatsOf rws (map fst firstRow)))"
    by (rule imageI)
  then show ?thesis
    by (simp add: summaryLines_def Let_def)
qed

lemma set_numericStats_entries:
  "set (objEntries (numericStatsOf rws (map fst firstRow)))
     = {(c, statsOf (columnNumbers rws c)) | c. c \<in> fst ` set firstRow \<and> hasNumeric rws c}"
  by (simp add: set_objEntries set_numericStatsOf)

text \<open>
  The average follows the doubles: the cells \<^verbatim>\<open>"0.15"\<close> and \<^verbatim>\<open>"0"\<close> have the average
  0.075 in exact arithmetic, printed \<^verbatim>\<open>0.08\<close>; the double nearest to 0.15, halved, is
  slightly smaller and is printed \<^verbatim>\<open>0.07\<close>, as the code prints it.
\<close>

lemma average_follows_doubles:
  "numericStatsOf [[(''v'', Text ''0.15'')], [(''v'', Text ''0'')]] [''v'']
     = [(''v'', \<lparr>min_stat = Fin 0, max_stat = Fin (5404319552844595 / 36028797018963968),
               sum_stat = Fin (5404319552844595 / 36028797018963968),
               avg_stat = Fin (5404319552844595 / 72057594037927936)\<rparr>)]
   \<and> toFixed h 2 (Fin (5404319552844595 / 72057594037927936)) = ''0.07''
   \<and> toFixed h 2 (Fin (3 / 40)) = ''0.08''"
  by (simp add: summary_defs number_defs getProp_def print_defs)

subsection \<open>The comparator of the sort\<close>



section \<open>The claims\<close>

text \<open>
  C1.  Claimed: with filter intent and a resolved vocabulary value, the returned rows are
  a restriction of the rows of the default search, so that each of them both contains the
  query as a substring and equals the value in the target column (or in some column).
  The code does not do that: the filter branch filters \<^verbatim>\<open>excelData.data\<close> afresh.  What
  holds is that the returned rows are, up to the order a sort may impose, exactly the rows
  of the whole table whose target column (any column when none is resolved) has a text
  equal, after lower-casing, to the value; without sort intent the table order is kept.
\<close>

theorem filter_value_rows_of_table:
  assumes "query \<noteq> []" and "isFilterQuery (toLowerCase query)"
    and "valueMatches (toLowerCase query) = targetValue # others"
  shows "mset (rows (processExcelQuery h query (Some ed))) =
           mset (filter (\<lambda>r. if findColumn (toLowerCase query) (tableColumns (data ed)) = []
                              then \<exists>v \<in> snd ` set r. toLowerCase (toStr h v) = targetValue
                              else toLowerCase (toStr h (getProp r (findColumn (toLowerCase query) (tableColumns (data ed))))) = targetValue)
                        (data ed))
         \<and> (\<not> isSortQuery (toLowerCase query) \<longrightarrow>
              rows (processExcelQuery h query (Some ed)) =
                filter (\<lambda>r. if findColumn (toLowerCase query) (tableColumns (data ed)) = []
                             then \<exists>v \<in> snd ` set r. toLowerCase (toStr h v) = targetValue
                             else toLowerCase (toStr h (getProp r (findColumn (toLowerCase query) (tableColumns (data ed))))) = targetValue)
                       (data ed))"
  by (simp add: rows_value_filter [OF assms] Let_def mset_sortRows)

text \<open>
  The query \<^verbatim>\<open>show ok\<close> on the one-row table \<^verbatim>\<open>[{status: "OK"}]\<close>: the row is returned,
  although no cell contains the query and the default search finds nothing.
\<close>

theorem filter_value_not_within_plain_search:
  "isFilterQuery (toLowerCase ''show ok'') \<and> valueMatches (toLowerCase ''show ok'') = [''ok'']
   \<and> rows (processExcelQuery exampleHost ''show ok''
        (Some \<lparr>sheets = [''Sheet1''], data = [[(''status'', Text ''OK'')]], fileName = ''a.xlsx''\<rparr>))
       = [[(''status'', Text ''OK'')]]
   \<and> plainSearch exampleHost (toLowerCase ''show ok'') [[(''status'', Text ''OK'')]] = []
   \<and> \<not> set (rows (processExcelQuery exampleHost ''show ok''
        (Some \<lparr>sheets = [''Sheet1''], data = [[(''status'', Text ''OK'')]], fileName = ''a.xlsx''\<rparr>)))
       \<subseteq> set (plainSearch exampleHost (toLowerCase ''show ok'') [[(''status'', Text ''OK'')]])"
  by (simp add: query_defs)

theorem filter_value_rows_of_table_witness:
  "''show ok'' \<noteq> [] \<and> isFilterQuery (toLowerCase ''show ok'')
   \<and> valueMatches (toLowerCase ''show ok'') = ''ok'' # []
   \<and> rows (processExcelQuery exampleHost ''show ok''
        (Some \<lparr>sheets = [''Sheet1''],
               data = [[(''status'', Text ''OK'')], [(''status'', Text ''no'')]],
               fileName = ''a.xlsx''\<rparr>))
       = [[(''status'', Text ''OK'')]]"
proof -
  have a: "''show ok'' \<noteq> []" by simp
  have b: "isFilterQuery (toLowerCase ''show ok'')" by (simp add: query_defs)
  have c: "valueMatches (toLowerCase ''show ok'') = ''ok'' # []" by (simp add: query_defs)
  have d: "\<not> isSortQuery (toLowerCase ''show ok'')" by (simp add: query_defs)
  show ?thesis
    using a b c d
      filter_value_rows_of_table [OF a b c, of exampleHost
        "\<lparr>sheets = [''Sheet1''],
          data = [[(''status'', Text ''OK'')], [(''status'', Text ''no'')]],
          fileName = ''a.xlsx''\<rparr>"]
    by (simp add: toLowerCase_def lowerChar_def tableColumns_def toStr_def getProp_def)
qed

text \<open>
  C2.  Claimed: the query \<^verbatim>\<open>Summarize the data\<close> on any table of 11 rows returns a
  non-empty summary that begins with \<^verbatim>\<open>Total rows: 11\<close>.  The query has summarize intent
  only, so the rows that reach the summary are those of the default search, the rows with
  a cell that contains the whole query text.  On the 11-row table below no cell does,
  and the code returns no row and the summary of the empty list.
\<close>

theorem summarize_the_data_on_eleven_rows:
  "processExcelQuery h ''Summarize the data''
     (Some \<lparr>sheets = ss,
            data = [[(''id'', Text ''1'')], [(''id'', Text ''2'')], [(''id'', Text ''3'')],
                    [(''id'', Text ''4'')], [(''id'', Text ''5'')], [(''id'', Text ''6'')],
                    [(''id'', Text ''7'')], [(''id'', Text ''8'')], [(''id'', Text ''9'')],
                    [(''id'', Text ''10'')], [(''id'', Text ''11'')]],
            fileName = f\<rparr>)
   = \<lparr>rows = [], summary = ''No data available for summary.''\<rparr>"
  by (simp add: query_defs)

text \<open>
  C3.  Claimed: the query \<^verbatim>\<open>Sort by date descending\<close> on a table whose column \<^verbatim>\<open>date\<close>
  holds \<^verbatim>\<open>"2023"\<close>, \<^verbatim>\<open>"2021"\<close>, \<^verbatim>\<open>"2022"\<close> returns the rows in the order 2023, 2022, 2021.
  The query has sort intent only; the rows that reach the sort stage are those of the
  default search, and no cell contains the query text.  The code returns no row.
\<close>

theorem sort_by_date_descending_on_three_rows:
  "processExcelQuery h ''Sort by date descending''
     (Some \<lparr>sheets = ss,
            data = [[(''date'', Text ''2023'')], [(''date'', Text ''2021'')], [(''date'', Text ''2022'')]],
            fileName = f\<rparr>)
   = \<lparr>rows = [], summary = ''No data available for summary.''\<rparr>"
  by (simp add: query_defs)

text \<open>
  C4.  Claimed: the query \<^verbatim>\<open>Show me all rows where status is OK\<close> on a table with a
  column \<^verbatim>\<open>status\<close> whose values are OK, OK, FAIL resolves the column \<^verbatim>\<open>status\<close> and
  the value \<^verbatim>\<open>ok\<close>, and returns exactly the 2 rows whose status is OK.  The scan of the
  columns stops at the first column whose lower-cased name occurs in the query, so this
  holds when no column before \<^verbatim>\<open>status\<close>, in the key order of the first row, has such a
  name.  Then \<^verbatim>\<open>status\<close> and \<^verbatim>\<open>ok\<close> are resolved and the returned rows are exactly the
  rows of the table, in table order, whose status text is \<^verbatim>\<open>ok\<close> after lower-casing; they
  are 2 when the status values are OK, OK, FAIL in any order.
\<close>

theorem show_rows_where_status_is_ok:
  assumes "tableColumns (data ed) = pre @ ''status'' # post"
    and "\<forall>c \<in> set pre.
           \<not> str_includes (toLowerCase ''Show me all rows where status is OK'') (toLowerCase c)"
  shows "findColumn (toLowerCase ''Show me all rows where status is OK'') (tableColumns (data ed))
           = ''status''
         \<and> valueMatches (toLowerCase ''Show me all rows where status is OK'') = [''ok'']
         \<and> rows (processExcelQuery h ''Show me all rows where status is OK'' (Some ed))
             = filter (\<lambda>r. toLowerCase (toStr h (getProp r ''status'')) = ''ok'') (data ed)
         \<and> (mset (map (\<lambda>r. getProp r ''status'') (data ed))
               = {#Text ''OK'', Text ''OK'', Text ''FAIL''#} \<longrightarrow>
             length (rows (processExcelQuery h ''Show me all rows where status is OK'' (Some ed))) = 2)"
proof -
  let ?q = "''Show me all rows where status is OK''"
  have inc: "str_includes (toLowerCase ?q) (toLowerCase ''status'')"
    by (simp add: toLowerCase_def lowerChar_def)
  have col: "findColumn (toLowerCase ?q) (tableColumns (data ed)) = ''status''"
    unfolding assms(1) using assms(2) inc by (rule findColumn_first_match)
  have vm: "valueMatches (toLowerCase ?q) = ''ok'' # []"
    by (simp add: query_defs)
  have flt: "isFilterQuery (toLowerCase ?q)" and nsort: "\<not> isSortQuery (toLowerCase ?q)"
    by (simp_all add: query_defs)
  have ne: "?q \<noteq> []" by simp
  have res: "rows (processExcelQuery h ?q (Some ed))
             = filter (\<lambda>r. toLowerCase (toStr h (getProp r ''status'')) = ''ok'') (data ed)"
    using rows_value_filter [OF ne flt vm, of h ed] nsort col by (simp add: Let_def)
  have two: "length (rows (processExcelQuery h ?q (Some ed))) = 2"
    if m: "mset (map (\<lambda>r. getProp r ''status'') (data ed)) = {#Text ''OK'', Text ''OK'', Text ''FAIL''#}"
  proof -
    have "length (rows (processExcelQuery h ?q (Some ed)))
          = size (filter_mset (\<lambda>v. toLowerCase (toStr h v) = ''ok'')
                    (mset (map (\<lambda>r. getProp r ''status'') (data ed))))"
      unfolding res by (rule length_filter_by_key)
    also have "\<dots> = 2"
      unfolding m by (simp add: toStr_def toLowerCase_def lowerChar_def)
    finally show ?thesis .
  qed
  from col vm res two show ?thesis by simp
qed

text \<open>
  With a column \<^verbatim>\<open>Row\<close> before \<^verbatim>\<open>status\<close> the scan resolves \<^verbatim>\<open>Row\<close>, whose lower-cased name
  occurs in the word \<^verbatim>\<open>rows\<close> of the query; no \<^verbatim>\<open>Row\<close> cell reads \<^verbatim>\<open>ok\<close>, and no row is
  returned.
\<close>

theorem status_query_resolves_earlier_column:
  "findColumn (toLowerCase ''Show me all rows where status is OK'')
      (tableColumns [[(''Row'', Text ''1''), (''status'', Text ''OK'')],
                     [(''Row'', Text ''2''), (''status'', Text ''OK'')],
                     [(''Row'', Text ''3''), (''status'', Text ''FAIL'')]]) = ''Row''
   \<and> rows (processExcelQuery exampleHost ''Show me all rows where status is OK''
        (Some \<lparr>sheets = [''Sheet1''],
               data = [[(''Row'', Text ''1''), (''status'', Text ''OK'')],
                       [(''Row'', Text ''2''), (''status'', Text ''OK'')],
                       [(''Row'', Text ''3''), (''status'', Text ''FAIL'')]],
               fileName = ''a.xlsx''\<rparr>)) = []"
  by (simp add: query_defs)

theorem show_rows_where_status_is_ok_witness:
  "tableColumns [[(''id'', Text ''a''), (''status'', Text ''OK'')],
                 [(''id'', Text ''b''), (''status'', Text ''FAIL'')],
                 [(''id'', Text ''c''), (''status'', Text ''ok'')]] = [''id''] @ ''status'' # []
   \<and> \<not> str_includes (toLowerCase ''Show me all rows where status is OK'') (toLowerCase ''id'')
   \<and> rows (processExcelQuery exampleHost ''Show me all rows where status is OK''
        (Some \<lparr>sheets = [''Sheet1''],
               data = [[(''id'', Text ''a''), (''status'', Text ''OK'')],
                       [(''id'', Text ''b''), (''status'', Text ''FAIL'')],
                       [(''id'', Text ''c''), (''status'', Text ''ok'')]],
               fileName = ''a.xlsx''\<rparr>))
       = [[(''id'', Text ''a''), (''status'', Text ''OK'')], [(''id'', Text ''c''), (''status'', Text ''ok'')]]
   \<and> mset (map (\<lambda>r. getProp r ''status'')
              [[(''id'', Text ''a''), (''status'', Text ''OK'')],
               [(''id'', Text ''b''), (''status'', Text ''FAIL'')],
               [(''id'', Text ''c''), (''status'', Text ''OK'')]])
       = {#Text ''OK'', Text ''OK'', Text ''FAIL''#}
   \<and> length (rows (processExcelQuery exampleHost ''Show me all rows where status is OK''
        (Some \<lparr>sheets = [''Sheet1''],
               data = [[(''id'', Text ''a''), (''status'', Text ''OK'')],
                       [(''id'', Text ''b''), (''status'', Text ''FAIL'')],
                       [(''id'', Text ''c''), (''status'', Text ''OK'')]],
               fileName = ''a.xlsx''\<rparr>))) = 2"
proof -
  have c1: "tableColumns (data \<lparr>sheets = [''Sheet1''],
               data = [[(''id'', Text ''a''), (''status'', Text ''OK'')],
                       [(''id'', Text ''b''), (''status'', Text ''FAIL'')],
                       [(''id'', Text ''c''), (''status'', Text ''ok'')]],
               fileName = ''a.xlsx''\<rparr>) = [''id''] @ ''status'' # []"
    by (simp add: tableColumns_def)
  have c2: "tableColumns (data \<lparr>sheets = [''Sheet1''],
               data = [[(''id'', Text ''a''), (''status'', Text ''OK'')],
                       [(''id'', Text ''b''), (''status'', Text ''FAIL'')],
                       [(''id'', Text ''c''), (''status'', Text ''OK'')]],
               fileName = ''a.xlsx''\<rparr>) = [''id''] @ ''status'' # []"
    by (simp add: tableColumns_def)
  have n: "\<not> str_includes (toLowerCase ''Show me all rows where status is OK'') (toLowerCase ''id'')"
    by (simp add: toLowerCase_def lowerChar_def)
  then have p: "\<forall>c \<in> set [''id''].
      \<not> str_includes (toLowerCase ''Show me all rows where status is OK'') (toLowerCase c)"
    by simp
  have m: "mset (map (\<lambda>r. getProp r ''status'')
              [[(''id'', Text ''a''), (''status'', Text ''OK'')],
               [(''id'', Text ''b''), (''status'', Text ''FAIL'')],
               [(''id'', Text ''c''), (''status'', Text ''OK'')]])
       = {#Text ''OK'', Text ''OK'', Text ''FAIL''#}"
    by (simp add: getProp_def)
  have r1: "rows (processExcelQuery exampleHost ''Show me all rows where status is OK''
        (Some \<lparr>sheets = [''Sheet1''],
               data = [[(''id'', Text ''a''), (''status'', Text ''OK'')],
                       [(''id'', Text ''b''), (''status'', Text ''FAIL'')],
                       [(''id'', Text ''c''), (''status'', Text ''ok'')]],
               fileName = ''a.xlsx''\<rparr>))
       = [[(''id'', Text ''a''), (''status'', Text ''OK'')], [(''id'', Text ''c''), (''status'', Text ''ok'')]]"
    using show_rows_where_status_is_ok [OF c1 p, of exampleHost]
    by (simp add: toStr_def getProp_def toLowerCase_def lowerChar_def)
  have r2: "length (rows (processExcelQuery exampleHost ''Show me all rows where status is OK''
        (Some \<lparr>sheets = [''Sheet1''],
               data = [[(''id'', Text ''a''), (''status'', Text ''OK'')],
                       [(''id'', Text ''b''), (''status'', Text ''FAIL'')],
                       [(''id'', Text ''c''), (''status'', Text ''OK'')]],
               fileName = ''a.xlsx''\<rparr>))) = 2"
  proof -
    have m': "mset (map (\<lambda>r. getProp r ''status'')
              (data \<lparr>sheets = [''Sheet1''],
               data = [[(''id'', Text ''a''), (''status'', Text ''OK'')],
                       [(''id'', Text ''b''), (''status'', Text ''FAIL'')],
                       [(''id'', Text ''c''), (''status'', Text ''OK'')]],
               fileName = ''a.xlsx''\<rparr>))
       = {#Text ''OK'', Text ''OK'', Text ''FAIL''#}"
      using m by simp
    show ?thesis
      by (rule mp [OF conjunct2 [OF conjunct2 [OF conjunct2 [OF show_rows_where_status_is_ok [OF c2 p, of exampleHost]]]] m'])
  qed
  have c1': "tableColumns [[(''id'', Text ''a''), (''status'', Text ''OK'')],
                 [(''id'', Text ''b''), (''status'', Text ''FAIL'')],
                 [(''id'', Text ''c''), (''status'', Text ''ok'')]] = [''id''] @ ''status'' # []"
    by (simp add: tableColumns_def)
  from c1' n r1 m r2 show ?thesis by blast
qed

text \<open>
  C5.  For every table and every query (non-empty, as the interface requires) without
  filter and sort keywords, the returned rows are the rows of the table, in table order,
  in which some column's value, converted to text and lower-cased, contains the
  lower-cased query as a substring.  Summarize keywords do not change the rows, so the
  statement does not need their absence.
\<close>

theorem plain_search_rows:
  assumes "query \<noteq> []" and "\<not> isFilterQuery (toLowerCase query)"
    and "\<not> isSortQuery (toLowerCase query)"
  shows "rows (processExcelQuery h query (Some ed)) =
           filter (\<lambda>r. \<exists>v \<in> snd ` set r. sublist (toLowerCase query) (toLowerCase (toStr h v)))
                  (data ed)"
  using assms by (simp add: processExcelQuery_def Let_def plainSearch_eq)

theorem plain_search_rows_witness:
  "''ali'' \<noteq> [] \<and> \<not> isFilterQuery (toLowerCase ''ali'') \<and> \<not> isSortQuery (toLowerCase ''ali'')
   \<and> \<not> isSummarizeQuery (toLowerCase ''ali'')
   \<and> rows (processExcelQuery exampleHost ''ali''
        (Some \<lparr>sheets = [''Sheet1''],
               data = [[(''name'', Text ''Alice''), (''age'', Num (Fin 30))],
                       [(''name'', Text ''Bob''), (''age'', Num (Fin 25))],
                       [(''name'', Text ''Khalid''), (''age'', Num (Fin 41))]],
               fileName = ''a.xlsx''\<rparr>))
       = [[(''name'', Text ''Alice''), (''age'', Num (Fin 30))],
          [(''name'', Text ''Khalid''), (''age'', Num (Fin 41))]]"
proof -
  have a: "''ali'' \<noteq> []" by simp
  have b: "\<not> isFilterQuery (toLowerCase ''ali'')" by (simp add: query_defs)
  have c: "\<not> isSortQuery (toLowerCase ''ali'')" by (simp add: query_defs)
  have d: "\<not> isSummarizeQuery (toLowerCase ''ali'')" by (simp add: query_defs)
  show ?thesis
    using a b c d
      plain_search_rows [OF a b c, of exampleHost
        "\<lparr>sheets = [''Sheet1''],
          data = [[(''name'', Text ''Alice''), (''age'', Num (Fin 30))],
                  [(''name'', Text ''Bob''), (''age'', Num (Fin 25))],
                  [(''name'', Text ''Khalid''), (''age'', Num (Fin 41))]],
          fileName = ''a.xlsx''\<rparr>"]
    by (simp add: str_includes_iff_sublist [symmetric] toLowerCase_def lowerChar_def toStr_def
          print_defs)
qed

text \<open>
  C6.  Claimed: when the summary is triggered, for every column where at least one row's
  value parses as a number, the line \<^verbatim>\<open><column>: Min=.., Max=.., Avg=..\<close> is computed over
  the numeric-parseable values only, non-numeric and absent values being excluded and
  not treated as zero; for 10, 20, \<^verbatim>\<open>"abc"\<close>, 30 it reads \<^verbatim>\<open>Min=10.00, Max=30.00, Avg=20.00\<close>.
  What holds: the columns are the keys of the first row of the rows summarised, and the
  object \<^verbatim>\<open>numericStats\<close> has an entry exactly for those of them in which some row's value
  \<open>v\<close> has \<^verbatim>\<open>Number(v)\<close> different from \<^verbatim>\<open>NaN\<close>.  For such a column the line is among the
  lines of the summary, with minimum, maximum and average of the numbers \<^verbatim>\<open>Number(v)\<close> of
  exactly the rows where it is not \<^verbatim>\<open>NaN\<close>; the average is the sum, added from the left in
  double precision, divided by the number of these rows.  A missing cell and a text such
  as \<^verbatim>\<open>abc\<close> are left out.  The empty text, a blank text, \<^verbatim>\<open>null\<close> and \<^verbatim>\<open>false\<close> count as
  0, and \<^verbatim>\<open>true\<close> as 1.  The example is as claimed.
\<close>

theorem numeric_line_over_parseable_values:
  "(rws = firstRow # rest \<and> (forceSummarize \<or> 10 < length rws) \<and> col \<in> fst ` set firstRow
      \<and> hasNumeric rws col \<longrightarrow>
     generateSummary h rws forceSummarize = join ''<br>'' (summaryLines h rws firstRow)
     \<and> (let vals = map (\<lambda>r. toNumber (getProp r col))
                       (filter (\<lambda>r. \<not> isNaN (toNumber (getProp r col))) rws)
        in vals \<noteq> []
           \<and> col @ '': Min='' @ toFixed h 2 (mathMin vals) @ '', Max='' @ toFixed h 2 (mathMax vals)
               @ '', Avg='' @ toFixed h 2 (jsDivNat (foldl jsAdd (Fin 0) vals) (length vals))
             \<in> set (summaryLines h rws firstRow)
           \<and> (\<forall>xs. vals = map Fin xs \<longrightarrow>
                 mathMin vals = Fin (Min (set xs)) \<and> mathMax vals = Fin (Max (set xs)))))
   \<and> summaryLines h rws firstRow
       = [''Total rows: '' @ natToString (length rws)]
         @ map (\<lambda>e. numericLine h (fst e) (snd e)) (objEntries (numericStatsOf rws (map fst firstRow)))
         @ concat (map (categoricalLine h (length rws))
                     (objEntries (categoricalStatsOf h rws (map fst firstRow))))
   \<and> set (objEntries (numericStatsOf rws (map fst firstRow)))
       = {(c, statsOf (columnNumbers rws c)) | c. c \<in> fst ` set firstRow \<and> hasNumeric rws c}
   \<and> (\<forall>r. col \<notin> fst ` set r \<longrightarrow> isNaN (toNumber (getProp r col)))
   \<and> isNaN (toNumber Undefined) \<and> isNaN (toNumber (Text ''abc''))
   \<and> toNumber (Text []) = Fin 0 \<and> toNumber (Text '' '') = Fin 0 \<and> toNumber Null = Fin 0
   \<and> toNumber (Bool False) = Fin 0 \<and> toNumber (Bool True) = Fin 1
   \<and> generateSummary h
        [[(''v'', Num (Fin 10))], [(''v'', Num (Fin 20))], [(''v'', Text ''abc'')], [(''v'', Num (Fin 30))]]
        True
      = ''Total rows: 4<br>v: Min=10.00, Max=30.00, Avg=20.00<br>v distribution: 10: 1 (25.0%), 20: 1 (25.0%), 30: 1 (25.0%)''"
proof (intro conjI impI allI)
  assume a: "rws = firstRow # rest \<and> (forceSummarize \<or> 10 < length rws) \<and> col \<in> fst ` set firstRow
      \<and> hasNumeric rws col"
  from a have c: "col \<in> fst ` set firstRow" and hn: "hasNumeric rws col"
    by auto
  show "generateSummary h rws forceSummarize = join ''<br>'' (summaryLines h rws firstRow)"
    using a by (auto simp: generateSummary_def)
  define vals where "vals = map (\<lambda>r. toNumber (getProp r col))
                       (filter (\<lambda>r. \<not> isNaN (toNumber (getProp r col))) rws)"
  have cn: "columnNumbers rws col = vals"
    by (simp add: vals_def columnNumbers_rows)
  have ne: "vals \<noteq> []"
    using hn cn by (simp add: hasNumeric_iff)
  have line: "numericLine h col (statsOf vals) \<in> set (summaryLines h rws firstRow)"
    using numericLine_in_summaryLines [OF c hn, of h] cn by simp
  have fin: "mathMin vals = Fin (Min (set xs)) \<and> mathMax vals = Fin (Max (set xs))"
    if "vals = map Fin xs" for xs
  proof -
    from that ne have "xs \<noteq> []" by auto
    with that show ?thesis
      by (simp add: mathMin_Fin mathMax_Fin)
  qed
  show "let vals = map (\<lambda>r. toNumber (getProp r col))
                       (filter (\<lambda>r. \<not> isNaN (toNumber (getProp r col))) rws)
        in vals \<noteq> []
           \<and> col @ '': Min='' @ toFixed h 2 (mathMin vals) @ '', Max='' @ toFixed h 2 (mathMax vals)
               @ '', Avg='' @ toFixed h 2 (jsDivNat (foldl jsAdd (Fin 0) vals) (length vals))
             \<in> set (summaryLines h rws firstRow)
           \<and> (\<forall>xs. vals = map Fin xs \<longrightarrow>
                 mathMin vals = Fin (Min (set xs)) \<and> mathMax vals = Fin (Max (set xs)))"
    unfolding Let_def vals_def [symmetric]
    using ne line fin by (simp add: numericLine_def statsOf_def Let_def)
next
  show "summaryLines h rws firstRow
       = [''Total rows: '' @ natToString (length rws)]
         @ map (\<lambda>e. numericLine h (fst e) (snd e)) (objEntries (numericStatsOf rws (map fst firstRow)))
         @ concat (map (categoricalLine h (length rws))
                     (objEntries (categoricalStatsOf h rws (map fst firstRow))))"
    by (simp add: summaryLines_def Let_def)
next
  show "set (objEntries (numericStatsOf rws (map fst firstRow)))
       = {(c, statsOf (columnNumbers rws c)) | c. c \<in> fst ` set firstRow \<and> hasNumeric rws c}"
    by (rule set_numericStats_entries)
next
  fix r :: row
  assume "col \<notin> fst ` set r"
  then show "isNaN (toNumber (getProp r col))"
    by (simp add: getProp_absent toNumber_def)
next
  show "isNaN (toNumber Undefined)" by (simp add: toNumber_def)
  show "isNaN (toNumber (Text ''abc''))" by (simp add: number_defs)
  show "toNumber (Text []) = Fin 0" by (simp add: number_defs)
  show "toNumber (Text '' '') = Fin 0" by (simp add: number_defs)
  show "toNumber Null = Fin 0" by (simp add: toNumber_def)
  show "toNumber (Bool False) = Fin 0" by (simp add: toNumber_def)
  show "toNumber (Bool True) = Fin 1" by (simp add: toNumber_def)
  show "generateSummary h
        [[(''v'', Num (Fin 10))], [(''v'', Num (Fin 20))], [(''v'', Text ''abc'')], [(''v'', Num (Fin 30))]]
        True
      = ''Total rows: 4<br>v: Min=10.00, Max=30.00, Avg=20.00<br>v distribution: 10: 1 (25.0%), 20: 1 (25.0%), 30: 1 (25.0%)''"
    by (simp add: query_defs number_defs summary_defs print_defs)
qed

text \<open>
  A column with the cells 10, the empty text and 20 has the minimum 0 and the average 10:
  the empty text counts as 0.  A column \<^verbatim>\<open>n\<close> that the first row lacks has no line, although
  a later row holds the number 5 in it.
\<close>

theorem numeric_line_counts_blank_and_needs_first_row:
  "generateSummary exampleHost
      [[(''v'', Num (Fin 10))], [(''v'', Text [])], [(''v'', Num (Fin 20))]] True
     = ''Total rows: 3<br>v: Min=0.00, Max=20.00, Avg=10.00<br>v distribution: 10: 1 (33.3%), 20: 1 (33.3%), : 1 (33.3%)''
   \<and> hasNumeric [[(''a'', Text ''x'')], [(''a'', Text ''y''), (''n'', Num (Fin 5))]] ''n''
   \<and> generateSummary exampleHost
      [[(''a'', Text ''x'')], [(''a'', Text ''y''), (''n'', Num (Fin 5))]] True
     = ''Total rows: 2<br>a distribution: x: 1 (50.0%), y: 1 (50.0%)''"
  by (simp add: query_defs number_defs summary_defs print_defs)

theorem numeric_line_over_parseable_values_witness:
  "hasNumeric [[(''v'', Num (Fin 10))], [(''v'', Num (Fin 20))], [(''v'', Text ''abc'')], [(''v'', Num (Fin 30))]] ''v''
   \<and> ''v'' \<in> fst ` set [(''v'', Num (Fin 10))]
   \<and> ''v: Min=10.00, Max=30.00, Avg=20.00''
       \<in> set (summaryLines exampleHost
            [[(''v'', Num (Fin 10))], [(''v'', Num (Fin 20))], [(''v'', Text ''abc'')], [(''v'', Num (Fin 30))]]
            [(''v'', Num (Fin 10))])
   \<and> mathMin [Fin 10, Fin 20, Fin 30] = Fin 10
   \<and> mathMax [Fin 10, Fin 20, Fin 30] = Fin 30
   \<and> ''v'' \<notin> fst ` set [(''w'', Num (Fin 5))]
   \<and> isNaN (toNumber (getProp [(''w'', Num (Fin 5))] ''v''))"
proof -
  have hyp: "[[(''v'', Num (Fin 10))], [(''v'', Num (Fin 20))], [(''v'', Text ''abc'')], [(''v'', Num (Fin 30))]]
        = [(''v'', Num (Fin 10))] # [[(''v'', Num (Fin 20))], [(''v'', Text ''abc'')], [(''v'', Num (Fin 30))]]
      \<and> (True \<or> 10 < length [[(''v'', Num (Fin 10))], [(''v'', Num (Fin 20))], [(''v'', Text ''abc'')], [(''v'', Num (Fin 30))]])
      \<and> ''v'' \<in> fst ` set [(''v'', Num (Fin 10))]
      \<and> hasNumeric [[(''v'', Num (Fin 10))], [(''v'', Num (Fin 20))], [(''v'', Text ''abc'')], [(''v'', Num (Fin 30))]] ''v''"
    by (simp add: hasNumeric_def number_defs getProp_def)
  have vals: "map (\<lambda>r. toNumber (getProp r ''v''))
        (filter (\<lambda>r. \<not> isNaN (toNumber (getProp r ''v'')))
           [[(''v'', Num (Fin 10))], [(''v'', Num (Fin 20))], [(''v'', Text ''abc'')], [(''v'', Num (Fin 30))]])
      = map Fin [10, 20, 30]"
    by (simp add: number_defs getProp_def)
  note t = numeric_line_over_parseable_values [where rws = "[[(''v'', Num (Fin 10))], [(''v'', Num (Fin 20))], [(''v'', Text ''abc'')], [(''v'', Num (Fin 30))]]"
      and firstRow = "[(''v'', Num (Fin 10))]"
      and rest = "[[(''v'', Num (Fin 20))], [(''v'', Text ''abc'')], [(''v'', Num (Fin 30))]]"
      and forceSummarize = True and col = "''v''" and h = exampleHost]
  note inst = conjunct2 [OF mp [OF conjunct1 [OF t] hyp], unfolded Let_def vals]
  from inst
  have line: "''v: Min=10.00, Max=30.00, Avg=20.00''
       \<in> set (summaryLines exampleHost
            [[(''v'', Num (Fin 10))], [(''v'', Num (Fin 20))], [(''v'', Text ''abc'')], [(''v'', Num (Fin 30))]]
            [(''v'', Num (Fin 10))])"
    by (simp add: mathMin_def mathMax_def jsMin_def jsMax_def print_defs round_defs)
  from inst
  have "mathMin (map Fin [10, 20, 30]) = Fin (Min (set [10, 20, 30]))
      \<and> mathMax (map Fin [10, 20, 30]) = Fin (Max (set [10, 20, 30]))"
    by blast
  then have stats: "mathMin [Fin 10, Fin 20, Fin 30] = Fin 10
      \<and> mathMax [Fin 10, Fin 20, Fin 30] = Fin 30"
    by simp
  have absent: "''v'' \<notin> fst ` set [(''w'', Num (Fin 5))]"
    by simp
  from conjunct1 [OF conjunct2 [OF conjunct2 [OF conjunct2 [OF t]]]] absent
  have nan: "isNaN (toNumber (getProp [(''w'', Num (Fin 5))] ''v''))"
    by blast
  from hyp line stats absent nan show ?thesis by blast
qed

text \<open>
  C7.  Claimed: the summary text is empty when the summary is not triggered or the row
  sequence is empty.  For a non-empty sequence that does not trigger the summary (no
  summarize intent, at most 10 rows) the text is indeed empty; for the empty sequence the
  first statement of \<^verbatim>\<open>generateSummary\<close> returns \<^verbatim>\<open>No data available for summary.\<close>,
  whatever the flag.
\<close>

theorem summary_empty_or_no_data:
  "(rws \<noteq> [] \<and> \<not> forceSummarize \<and> length rws \<le> 10 \<longrightarrow>
      generateSummary h rws forceSummarize = [])
   \<and> generateSummary h [] forceSummarize = ''No data available for summary.''"
  by (auto simp add: generateSummary_def split: list.splits)

theorem summary_of_no_rows_not_empty: "generateSummary exampleHost [] False \<noteq> []"
  by (simp add: generateSummary_def)

theorem summary_empty_or_no_data_witness:
  "[[(''a'', Text ''x'')]] \<noteq> [] \<and> \<not> False \<and> length [[(''a'', Text ''x'')]] \<le> 10
   \<and> generateSummary exampleHost [[(''a'', Text ''x'')]] False = []
   \<and> generateSummary exampleHost [] False = ''No data available for summary.''"
  using summary_empty_or_no_data
    [where rws = "[[(''a'', Text ''x'')]]" and forceSummarize = False and h = exampleHost]
  by simp




text \<open>
  C9.  For every query, also the empty one: with no table (\<^verbatim>\<open>excelData\<close> is \<^verbatim>\<open>null\<close>) the
  result has no rows and the summary \<^verbatim>\<open>No data available\<close>; with a table of zero columns
  (the first row has no key, or there is no row, and no row has a key outside the
  table's columns) the result has no rows and a summary that begins with
  \<^verbatim>\<open>No data available\<close>.  No statement of \<^verbatim>\<open>processExcelQuery\<close> or \<^verbatim>\<open>generateSummary\<close>
  can throw on rows whose cells are primitive values, which is why the model has no
  error result: the functions are total.
\<close>

theorem no_data_result:
  "processExcelQuery h query None = \<lparr>rows = [], summary = ''No data available''\<rparr>
   \<and> (tableColumns (data ed) = []
        \<and> (\<forall>r \<in> set (data ed). set (map fst r) \<subseteq> set (tableColumns (data ed)))
        \<longrightarrow> rows (processExcelQuery h query (Some ed)) = []
            \<and> prefix ''No data available'' (summary (processExcelQuery h query (Some ed))))"
proof (intro conjI impI)
  show "processExcelQuery h query None = \<lparr>rows = [], summary = ''No data available''\<rparr>"
    by (simp add: processExcelQuery_def)
next
  assume hyp: "tableColumns (data ed) = []
    \<and> (\<forall>r \<in> set (data ed). set (map fst r) \<subseteq> set (tableColumns (data ed)))"
  then have cols: "tableColumns (data ed) = []" and empty: "\<forall>r \<in> set (data ed). r = []"
    by auto
  have plain: "plainSearch h q (data ed) = []" for q
    using empty by (auto simp add: plainSearch_def filter_empty_conv)
  have filt: "filterRows h q (data ed) [] = []" for q
    using empty cols
    by (auto simp add: filterRows_def Let_def anyColumnEquals_def filter_empty_conv
          split: list.splits)
  have srt: "sortRows h q (data ed) [] = []" for q
    using cols by (simp add: sortRows_def Let_def)
  have res: "processExcelQuery h query (Some ed) =
     (if query = [] then \<lparr>rows = [], summary = ''No data available''\<rparr>
      else \<lparr>rows = [], summary = ''No data available for summary.''\<rparr>)"
    by (simp add: processExcelQuery_def Let_def plain filt srt generateSummary_def)
  show "rows (processExcelQuery h query (Some ed)) = []"
    by (simp add: res)
  show "prefix ''No data available'' (summary (processExcelQuery h query (Some ed)))"
    by (simp add: res)
qed

theorem no_data_result_witness:
  "processExcelQuery exampleHost ''anything'' None = \<lparr>rows = [], summary = ''No data available''\<rparr>
   \<and> tableColumns [[], []] = []
   \<and> rows (processExcelQuery exampleHost ''anything''
        (Some \<lparr>sheets = [''Sheet1''], data = [[], []], fileName = ''a.xlsx''\<rparr>)) = []
   \<and> prefix ''No data available'' (summary (processExcelQuery exampleHost ''anything''
        (Some \<lparr>sheets = [''Sheet1''], data = [[], []], fileName = ''a.xlsx''\<rparr>)))"
proof -
  have hyp: "tableColumns (data \<lparr>sheets = [''Sheet1''], data = [[], []], fileName = ''a.xlsx''\<rparr>) = []
    \<and> (\<forall>r \<in> set (data \<lparr>sheets = [''Sheet1''], data = [[], []], fileName = ''a.xlsx''\<rparr>).
          set (map fst r)
            \<subseteq> set (tableColumns (data \<lparr>sheets = [''Sheet1''], data = [[], []], fileName = ''a.xlsx''\<rparr>)))"
    by (simp add: tableColumns_def)
  have cols: "tableColumns [[], []] = []"
    by (simp add: tableColumns_def)
  note t = no_data_result [of exampleHost "''anything''"
    "\<lparr>sheets = [''Sheet1''], data = [[], []], fileName = ''a.xlsx''\<rparr>"]
  from conjunct1 [OF t] mp [OF conjunct2 [OF t] hyp] cols show ?thesis
    by blast
qed




end
